theory Spec2Isabelle
  imports Main
begin

section \<open>JavaScript values and the JSON round trip\<close>

text \<open>
  The cache of \<^verbatim>\<open>utils/cache.ts\<close> stores payloads of any type (\<^verbatim>\<open>CacheEntry<any>\<close>).
  A payload is a JavaScript value. \<open>JNum\<close> is a finite number other than \<^verbatim>\<open>-0\<close> (an integer
  here); the numbers that JSON has no text for are constructors of their own (\<open>JNaN\<close>,
  \<open>JInfinity\<close>, \<open>JNegInfinity\<close>, \<open>JNegZero\<close>). A \<^verbatim>\<open>Date\<close> carries its time value in
  milliseconds since the epoch, an object is the list of its own properties in enumeration
  order, \<open>JFunction\<close> is any function.
\<close>

datatype jsval =
    JUndefined
  | JNull
  | JBool bool
  | JNum int
  | JNaN
  | JInfinity
  | JNegInfinity
  | JNegZero
  | JStr string
  | JDate int
  | JFunction
  | JArr "jsval list"
  | JObj "(string \<times> jsval) list"

subsection \<open>\<^verbatim>\<open>Date.prototype.toISOString\<close>\<close>

definition digit_char :: "nat \<Rightarrow> char" where
  "digit_char d = ''0123456789'' ! d"

text \<open>The last \<open>w\<close> decimal digits of \<open>n\<close>, zero padded.\<close>

fun pad :: "nat \<Rightarrow> nat \<Rightarrow> string" where
  "pad 0 n = []"
| "pad (Suc w) n = pad w (n div 10) @ [digit_char (n mod 10)]"

text \<open>
  The proleptic Gregorian date (year, month, day) of a day number counted from
  1970-01-01; \<open>div\<close> on \<open>int\<close> rounds down, as the calendar needs before the epoch.
\<close>

definition civil_from_days :: "int \<Rightarrow> int \<times> int \<times> int" where
  "civil_from_days days =
     (let z = days + 719468;
          era = z div 146097;
          doe = z - era * 146097;
          yoe = (doe - doe div 1460 + doe div 36524 - doe div 146096) div 365;
          y = yoe + era * 400;
          doy = doe - (365 * yoe + yoe div 4 - yoe div 100);
          mp = (5 * doy + 2) div 153;
          d = doy - (153 * mp + 2) div 5 + 1;
          m = (if mp < 10 then mp + 3 else mp - 9)
      in (if m \<le> 2 then y + 1 else y, m, d))"

definition year_string :: "int \<Rightarrow> string" where
  "year_string y =
     (if 0 \<le> y \<and> y \<le> 9999 then pad 4 (nat y)
      else (if y < 0 then ''-'' else ''+'') @ pad 6 (nat \<bar>y\<bar>))"

definition toISOString :: "int \<Rightarrow> string" where
  "toISOString t =
     (let days = t div 86400000;
          ms = nat (t mod 86400000);
          (y, m, d) = civil_from_days days
      in year_string y @ ''-'' @ pad 2 (nat m) @ ''-'' @ pad 2 (nat d) @ ''T''
         @ pad 2 (ms div 3600000) @ '':'' @ pad 2 ((ms div 60000) mod 60) @ '':''
         @ pad 2 ((ms div 1000) mod 60) @ ''.'' @ pad 3 (ms mod 1000) @ ''Z'')"

text \<open>A \<^verbatim>\<open>Date\<close> is valid when its time value is within 8.64e15 ms of the epoch.\<close>

definition valid_time :: "int \<Rightarrow> bool" where
  "valid_time t = (\<bar>t\<bar> \<le> 8640000000000000)"

subsection \<open>\<^verbatim>\<open>JSON.parse(JSON.stringify(v))\<close>\<close>

definition undefined_to_null :: "jsval \<Rightarrow> jsval" where
  "undefined_to_null v = (case v of JUndefined \<Rightarrow> JNull | _ \<Rightarrow> v)"

definition is_defined :: "jsval \<Rightarrow> bool" where
  "is_defined v = (case v of JUndefined \<Rightarrow> False | _ \<Rightarrow> True)"

text \<open>
  What a value reads back as after it has been written with \<^verbatim>\<open>JSON.stringify\<close> and read
  with \<^verbatim>\<open>JSON.parse\<close>, in the place of a property value: a \<^verbatim>\<open>Date\<close> is written through its
  \<^verbatim>\<open>toJSON\<close> as an ISO string (or \<^verbatim>\<open>null\<close> when invalid) and stays a string; \<^verbatim>\<open>NaN\<close> and the
  infinities are written as \<^verbatim>\<open>null\<close>, \<^verbatim>\<open>-0\<close> as \<^verbatim>\<open>0\<close>; \<^verbatim>\<open>undefined\<close> and a function are
  written as \<^verbatim>\<open>null\<close> when they are array elements and left out when they are property
  values (a property left out reads back as \<^verbatim>\<open>undefined\<close>).
\<close>

primrec json_roundtrip :: "jsval \<Rightarrow> jsval" where
  "json_roundtrip JUndefined = JUndefined"
| "json_roundtrip JNull = JNull"
| "json_roundtrip (JBool b) = JBool b"
| "json_roundtrip (JNum n) = JNum n"
| "json_roundtrip JNaN = JNull"
| "json_roundtrip JInfinity = JNull"
| "json_roundtrip JNegInfinity = JNull"
| "json_roundtrip JNegZero = JNum 0"
| "json_roundtrip (JStr s) = JStr s"
| "json_roundtrip (JDate t) = (if valid_time t then JStr (toISOString t) else JNull)"
| "json_roundtrip JFunction = JUndefined"
| "json_roundtrip (JArr xs) = JArr (map undefined_to_null (map json_roundtrip xs))"
| "json_roundtrip (JObj kvs) =
     JObj (filter (\<lambda>kv. is_defined (snd kv)) (map (map_prod id json_roundtrip) kvs))"


section \<open>The cache: \<^verbatim>\<open>utils/cache.ts\<close>\<close>

subsection \<open>Types (\<^verbatim>\<open>types/index.ts\<close>)\<close>

datatype storage_mode = Memory | File

record CacheConfig =
  ttl :: int
  storage :: storage_mode

text \<open>
  \<open>timestamp\<close> is the time value \<^verbatim>\<open>new Date(entry.timestamp).getTime()\<close>, in
  milliseconds: the code reads the field only through that expression, which gives the
  same number for the \<^verbatim>\<open>Date\<close> held in memory and for the ISO string read from a file.
\<close>

record 'a CacheEntry =
  data :: 'a
  timestamp :: int
  version :: string

subsection \<open>The process and its disk\<close>

datatype js_error = FsError string | SyntaxError | Error string

text \<open>
  The text of a file is known by what \<^verbatim>\<open>JSON.parse\<close> makes of it: either it is not JSON
  (\<open>Garbled\<close>) or it is the JSON text of a cache entry. Any other JSON text (\<^verbatim>\<open>null\<close>, a
  number, an object without the fields) fails the validity test or throws inside the
  \<^verbatim>\<open>try\<close> block of \<^verbatim>\<open>getCache\<close>, as one of these two does. A file that exists may refuse
  to be read (\<open>Unreadable\<close>).
\<close>

datatype file_text = Garbled | JsonText "jsval CacheEntry"

datatype disk_file = Unreadable | Content file_text

text \<open>
  \<open>memoryCache\<close> is the module's in-process map (its keys are the cache keys the
  callers build, \<^verbatim>\<open>component_doc_<name>_<version>\<close>), \<open>files\<close> the files by path,
  \<open>writable\<close> whether the disk accepts \<^verbatim>\<open>mkdirSync\<close> and \<^verbatim>\<open>writeFileSync\<close>, \<open>clock\<close> the
  value of \<^verbatim>\<open>Date.now()\<close> and of \<^verbatim>\<open>new Date()\<close>, \<open>console\<close> the lines written with
  \<^verbatim>\<open>console.error\<close> (message and error object).
\<close>

record world =
  memoryCache :: "string \<rightharpoonup> jsval CacheEntry"
  files :: "string \<rightharpoonup> disk_file"
  cacheDirExists :: bool
  writable :: bool
  clock :: int
  console :: "(string \<times> js_error) list"

text \<open>\<open>~\<close> stands for the value of \<^verbatim>\<open>os.homedir()\<close>.\<close>

definition CACHE_DIR :: string where
  "CACHE_DIR = ''~/.mantine-mcp-cache''"

definition fs_mkdirSync :: "world \<Rightarrow> (js_error + unit) \<times> world" where
  "fs_mkdirSync w =
     (if writable w then (Inr (), w\<lparr>cacheDirExists := True\<rparr>)
      else (Inl (FsError CACHE_DIR), w))"

definition fs_existsSync :: "string \<Rightarrow> world \<Rightarrow> bool" where
  "fs_existsSync p w = (case files w p of None \<Rightarrow> False | Some f \<Rightarrow> True)"

definition fs_readFileSync :: "string \<Rightarrow> world \<Rightarrow> js_error + file_text" where
  "fs_readFileSync p w =
     (case files w p of
        None \<Rightarrow> Inl (FsError p)
      | Some Unreadable \<Rightarrow> Inl (FsError p)
      | Some (Content t) \<Rightarrow> Inr t)"

definition fs_writeFileSync :: "string \<Rightarrow> file_text \<Rightarrow> world \<Rightarrow> (js_error + unit) \<times> world" where
  "fs_writeFileSync p t w =
     (if writable w \<and> cacheDirExists w then (Inr (), w\<lparr>files := (files w)(p \<mapsto> Content t)\<rparr>)
      else (Inl (FsError p), w))"

definition JSON_stringify :: "jsval CacheEntry \<Rightarrow> file_text" where
  "JSON_stringify entry = JsonText (entry\<lparr>data := json_roundtrip (data entry)\<rparr>)"

definition JSON_parse :: "file_text \<Rightarrow> js_error + jsval CacheEntry" where
  "JSON_parse t = (case t of Garbled \<Rightarrow> Inl SyntaxError | JsonText entry \<Rightarrow> Inr entry)"

subsection \<open>The functions of the module\<close>

definition ensureCacheDir :: "world \<Rightarrow> (js_error + unit) \<times> world" where
  "ensureCacheDir w = (if \<not> cacheDirExists w then fs_mkdirSync w else (Inr (), w))"

text \<open>\<^verbatim>\<open>key.replace(/[^a-z0-9]/gi, '_')\<close>: every character that is not an ASCII letter or digit.\<close>

definition alnum :: "char \<Rightarrow> bool" where
  "alnum c =
     (let n = of_char c :: nat
      in (97 \<le> n \<and> n \<le> 122) \<or> (65 \<le> n \<and> n \<le> 90) \<or> (48 \<le> n \<and> n \<le> 57))"

definition sanitize :: "string \<Rightarrow> string" where
  "sanitize key = map (\<lambda>c. if alnum c then c else CHR ''_'') key"

definition getCacheFilePath :: "string \<Rightarrow> string" where
  "getCacheFilePath key = CACHE_DIR @ ''/'' @ sanitize key @ ''.json''"

definition isValidCacheEntry :: "'a CacheEntry \<Rightarrow> int \<Rightarrow> string \<Rightarrow> world \<Rightarrow> bool" where
  "isValidCacheEntry entry ttl' currentVersion w =
     (if ttl' = 0 then False
      else if version entry \<noteq> currentVersion then False
      else (let entryTimestamp = timestamp entry; now = clock w
            in now - entryTimestamp < ttl'))"

text \<open>
  \<open>setCache\<close> has no \<^verbatim>\<open>try\<close>: an exception of \<^verbatim>\<open>mkdirSync\<close> or \<^verbatim>\<open>writeFileSync\<close> leaves the
  function, after the assignment to \<open>memoryCache\<close> has been made.
\<close>

definition setCache ::
  "string \<Rightarrow> jsval \<Rightarrow> CacheConfig \<Rightarrow> string \<Rightarrow> world \<Rightarrow> (js_error + unit) \<times> world" where
  "setCache key val config ver w =
     (let entry = \<lparr>data = val, timestamp = clock w, version = ver\<rparr>;
          w1 = w\<lparr>memoryCache := (memoryCache w)(key \<mapsto> entry)\<rparr>
      in if storage config = File then
           (case ensureCacheDir w1 of
              (Inl e, w2) \<Rightarrow> (Inl e, w2)
            | (Inr u, w2) \<Rightarrow> fs_writeFileSync (getCacheFilePath key) (JSON_stringify entry) w2)
         else (Inr (), w1))"

text \<open>The body of the \<^verbatim>\<open>try\<close> block of \<open>getCache\<close>; \<open>Inr None\<close> is falling out of the block.\<close>

definition readFileTier ::
  "string \<Rightarrow> CacheConfig \<Rightarrow> string \<Rightarrow> world \<Rightarrow> (js_error + jsval option) \<times> world" where
  "readFileTier key config currentVersion w =
     (let filePath = getCacheFilePath key
      in if fs_existsSync filePath w then
           (case fs_readFileSync filePath w of
              Inl e \<Rightarrow> (Inl e, w)
            | Inr fileContent \<Rightarrow>
                (case JSON_parse fileContent of
                   Inl e \<Rightarrow> (Inl e, w)
                 | Inr fileEntry \<Rightarrow>
                     if isValidCacheEntry fileEntry (ttl config) currentVersion w
                     then (Inr (Some (data fileEntry)),
                           w\<lparr>memoryCache := (memoryCache w)(key \<mapsto> fileEntry)\<rparr>)
                     else (Inr None, w)))
         else (Inr None, w))"

definition memoryHit :: "string \<Rightarrow> CacheConfig \<Rightarrow> string \<Rightarrow> world \<Rightarrow> jsval option" where
  "memoryHit key config currentVersion w =
     (case memoryCache w key of
        None \<Rightarrow> None
      | Some memoryEntry \<Rightarrow>
          if isValidCacheEntry memoryEntry (ttl config) currentVersion w
          then Some (data memoryEntry) else None)"

text \<open>
  \<open>getCache\<close>: the memory tier, then the file tier inside \<^verbatim>\<open>try\<close>/\<^verbatim>\<open>catch\<close>; the handler
  writes the error to the console and falls through to \<^verbatim>\<open>return null\<close> (\<open>None\<close>).
\<close>

definition getCache ::
  "string \<Rightarrow> CacheConfig \<Rightarrow> string \<Rightarrow> world \<Rightarrow> (js_error + jsval option) \<times> world" where
  "getCache key config currentVersion w =
     (case memoryHit key config currentVersion w of
        Some d \<Rightarrow> (Inr (Some d), w)
      | None \<Rightarrow>
          if storage config = File then
            (case readFileTier key config currentVersion w of
               (Inl error, w1) \<Rightarrow>
                 (Inr None,
                  w1\<lparr>console := console w1 @ [(''Error reading cache file for key '' @ key @ '':'', error)]\<rparr>)
             | (Inr r, w1) \<Rightarrow> (Inr r, w1))
          else (Inr None, w))"


definition advanceClock :: "int \<Rightarrow> world \<Rightarrow> world" where
  "advanceClock d w = w\<lparr>clock := clock w + d\<rparr>"

section \<open>The extraction: \<^verbatim>\<open>documentation/fetcher.ts\<close>\<close>

subsection \<open>String methods\<close>

text \<open>
  A string is the list of its code units, and a character of this model is a code unit
  below 256 (ASCII and Latin-1); the component names and the paths of the site are ASCII.
  The case mappings are those of \<^verbatim>\<open>toUpperCase\<close> and \<^verbatim>\<open>toLowerCase\<close> on these code units: the
  letters \<open>a\<close> to \<open>z\<close> and U+00E0 to U+00FE (without the division sign U+00F7) are 32 above
  their capitals, and the capital of U+00DF is \<open>SS\<close>. Two code units have a capital that is
  not a character of this model (U+00B5 and U+00FF, whose capitals are U+039C and U+0178);
  they are left as they are.
\<close>

definition toUpperCase :: "string \<Rightarrow> string" where
  "toUpperCase s =
     concat (map (\<lambda>c. let n = of_char c :: nat
                      in if (97 \<le> n \<and> n \<le> 122) \<or> (224 \<le> n \<and> n \<le> 254 \<and> n \<noteq> 247)
                         then [char_of (n - 32)]
                         else if n = 223 then ''SS'' else [c]) s)"

definition toLowerCase_char :: "char \<Rightarrow> char" where
  "toLowerCase_char c =
     (let n = of_char c :: nat
      in if (65 \<le> n \<and> n \<le> 90) \<or> (192 \<le> n \<and> n \<le> 222 \<and> n \<noteq> 215)
         then char_of (n + 32) else c)"

definition toLowerCase :: "string \<Rightarrow> string" where
  "toLowerCase s = map toLowerCase_char s"

text \<open>\<^verbatim>\<open>s.charAt(0).toUpperCase() + s.slice(1)\<close>\<close>

definition capitalize :: "string \<Rightarrow> string" where
  "capitalize s = (case s of [] \<Rightarrow> [] | c # cs \<Rightarrow> toUpperCase [c] @ cs)"

definition startsWith :: "string \<Rightarrow> string \<Rightarrow> bool" where
  "startsWith s p = (take (length p) s = p)"

definition endsWith :: "string \<Rightarrow> string \<Rightarrow> bool" where
  "endsWith s p = (length p \<le> length s \<and> drop (length s - length p) s = p)"

text \<open>\<^verbatim>\<open>s.split('/').pop()\<close>: what follows the last \<open>/\<close> (all of \<open>s\<close> when there is none).\<close>

definition split_pop :: "string \<Rightarrow> string" where
  "split_pop s = rev (takeWhile (\<lambda>c. c \<noteq> CHR ''/'') (rev s))"

text \<open>
  The white space and line terminators that \<^verbatim>\<open>String.prototype.trim\<close> strips, among the
  code units below 256: tab, line feed, vertical tab, form feed, carriage return, space
  and the no-break space U+00A0.
\<close>

definition is_space :: "char \<Rightarrow> bool" where
  "is_space c = (of_char c \<in> {9, 10, 11, 12, 13, 32, 160 :: nat})"

definition trim :: "string \<Rightarrow> string" where
  "trim s = rev (dropWhile is_space (rev (dropWhile is_space s)))"

definition includes_char :: "string \<Rightarrow> char \<Rightarrow> bool" where
  "includes_char s c = (c \<in> set s)"

subsection \<open>Documents and pages\<close>

record MantineComponentProp =
  prop_name :: string
  prop_type :: string
  prop_defaultValue :: "string option"
  prop_description :: string
  prop_required :: bool

text \<open>
  The fields of \<^verbatim>\<open>MantineComponentDoc\<close> that depend on the component name, the properties
  table and the anchors. The examples, the import statement, the package name, the version
  and the fetch time are computed from the same page and the configuration, independently
  of these, and are not part of this model.
\<close>

record MantineComponentDoc =
  name :: string
  description :: string
  props :: "MantineComponentProp list"
  url :: string
  relatedComponents :: "string list"

text \<open>
  A rendered page, as the selectors of the extraction see it: the text of the paragraph
  after the title, for each row of the properties table the texts of its \<^verbatim>\<open>td\<close> cells, and
  for each anchor its \<^verbatim>\<open>href\<close> attribute (\<open>None\<close> when it has none).
\<close>

record page =
  titleNextP :: string
  tableRows :: "string list list"
  anchors :: "string option list"

subsection \<open>The rendering session\<close>

text \<open>How an awaited call settles.\<close>

datatype 'a promise = Resolves 'a | Rejects string

text \<open>
  What the browser and the site do during one call: the outcome of each awaited step, in
  the order of the code.
\<close>

record site =
  launch :: "unit promise"
  newPage :: "unit promise"
  goto :: "unit promise"
  waitForSelector :: "unit promise"
  content :: "page promise"
  close :: "unit promise"

text \<open>The process: the browsers launched and not closed, and the console.\<close>

record session =
  openBrowsers :: nat
  errors :: "string list"

text \<open>\<^verbatim>\<open>promise.catch(() => {})\<close>: a rejection becomes a resolution.\<close>

definition swallow :: "unit promise \<Rightarrow> unit promise" where
  "swallow p = (case p of Resolves u \<Rightarrow> Resolves u | Rejects m \<Rightarrow> Resolves ())"

subsection \<open>The extraction\<close>

definition MANTINE_DOCS_BASE_URL :: string where
  "MANTINE_DOCS_BASE_URL = ''https://mantine.dev''"

text \<open>The body of the loop over the rows of the properties table.\<close>

definition pushProp :: "MantineComponentProp list \<Rightarrow> string list \<Rightarrow> MantineComponentProp list" where
  "pushProp props' columns =
     (if 4 \<le> length columns then
        props' @ [\<lparr>prop_name = trim (columns ! 0),
                   prop_type = trim (columns ! 1),
                   prop_defaultValue =
                     (if trim (columns ! 2) = [] then None else Some (trim (columns ! 2))),
                   prop_description = trim (columns ! 3),
                   prop_required = includes_char (columns ! 0) CHR ''*''\<rparr>]
      else props')"

definition extractProps :: "string list list \<Rightarrow> MantineComponentProp list" where
  "extractProps rows = foldl pushProp [] rows"

text \<open>The body of the loop over the anchors.\<close>

definition pushRelated :: "string \<Rightarrow> string list \<Rightarrow> string option \<Rightarrow> string list" where
  "pushRelated normalizedName related href' =
     (case href' of
        None \<Rightarrow> related
      | Some href \<Rightarrow>
          if href \<noteq> [] \<and> startsWith href ''/core/''
             \<and> \<not> endsWith href (toLowerCase normalizedName)
          then (let relatedComponent = split_pop href
                in if relatedComponent \<noteq> [] then related @ [capitalize relatedComponent]
                   else related)
          else related)"

text \<open>\<^verbatim>\<open>Array.from(new Set(xs))\<close>: the elements in the order of their first occurrence.\<close>

definition array_from_set :: "'a list \<Rightarrow> 'a list" where
  "array_from_set xs = foldl (\<lambda>s x. if x \<in> set s then s else s @ [x]) [] xs"

definition extractRelated :: "string \<Rightarrow> string option list \<Rightarrow> string list" where
  "extractRelated normalizedName hrefs =
     array_from_set (foldl (pushRelated normalizedName) [] hrefs)"

definition extractDoc :: "string \<Rightarrow> string \<Rightarrow> page \<Rightarrow> MantineComponentDoc" where
  "extractDoc normalizedName componentUrl pg =
     \<lparr>name = normalizedName,
      description = trim (titleNextP pg),
      props = extractProps (tableRows pg),
      url = componentUrl,
      relatedComponents = extractRelated normalizedName (anchors pg)\<rparr>"

text \<open>
  The body of the \<^verbatim>\<open>try\<close> block; \<open>Inl\<close> carries the message of the exception thrown. The
  only \<^verbatim>\<open>browser.close()\<close> of the function comes after \<^verbatim>\<open>page.content()\<close>.
\<close>

definition tryFetch ::
  "string \<Rightarrow> string \<Rightarrow> site \<Rightarrow> session \<Rightarrow> (string + MantineComponentDoc) \<times> session" where
  "tryFetch normalizedName componentUrl st s =
     (case launch st of
        Rejects m \<Rightarrow> (Inl m, s)
      | Resolves u \<Rightarrow>
          (let s1 = s\<lparr>openBrowsers := Suc (openBrowsers s)\<rparr>
           in case newPage st of
                Rejects m \<Rightarrow> (Inl m, s1)
              | Resolves u \<Rightarrow>
                  (case goto st of
                     Rejects m \<Rightarrow> (Inl m, s1)
                   | Resolves u \<Rightarrow>
                       (case swallow (waitForSelector st) of
                          Rejects m \<Rightarrow> (Inl m, s1)
                        | Resolves u \<Rightarrow>
                            (case content st of
                               Rejects m \<Rightarrow> (Inl m, s1)
                             | Resolves pg \<Rightarrow>
                                 (case close st of
                                    Rejects m \<Rightarrow> (Inl m, s1)
                                  | Resolves u \<Rightarrow>
                                      (Inr (extractDoc normalizedName componentUrl pg),
                                       s1\<lparr>openBrowsers := openBrowsers s1 - 1\<rparr>)))))))"

text \<open>
  \<open>fetchComponentDocFromWebsite\<close>: the \<^verbatim>\<open>catch\<close> clause writes to the console and throws a
  new error; it closes nothing.
\<close>

definition fetchComponentDocFromWebsite ::
  "string \<Rightarrow> site \<Rightarrow> session \<Rightarrow> (js_error + MantineComponentDoc) \<times> session" where
  "fetchComponentDocFromWebsite componentName st s =
     (let normalizedName = capitalize componentName;
          componentUrl = MANTINE_DOCS_BASE_URL @ ''/core/'' @ toLowerCase normalizedName
      in case tryFetch normalizedName componentUrl st s of
           (Inr doc, s') \<Rightarrow> (Inr doc, s')
         | (Inl message, s') \<Rightarrow>
             (Inl (Error (''Failed to fetch documentation for '' @ componentName @ '': ''
                          @ message)),
              s'\<lparr>errors := errors s'
                    @ [''Error fetching documentation for '' @ componentName @ '':'']\<rparr>))"

subsection \<open>The properties table in the words of the specification\<close>


subsection \<open>Example pages and sessions\<close>

definition idle :: session where
  "idle = \<lparr>openBrowsers = 0, errors = []\<rparr>"

definition buttonPage :: page where
  "buttonPage =
     \<lparr>titleNextP = '' Button component '',
      tableRows = [[''onClick'', ''() => void'', [], ''Click handler''],
                   [''variant *'', ''string'', ''filled''],
                   [''size *'', '' string '', ''md'', ''Size'', ''extra'']],
      anchors = [Some ''/core/action-icon'', None, Some ''/core/Button'',
                 Some ''/core/action-icon'', Some ''/core/button'', Some ''/hooks/use-click'']\<rparr>"

definition reachable :: site where
  "reachable =
     \<lparr>launch = Resolves (), newPage = Resolves (), goto = Resolves (),
      waitForSelector = Rejects ''Waiting for selector .mantine-Code-root failed'',
      content = Resolves buttonPage, close = Resolves ()\<rparr>"

definition unreachable :: site where
  "unreachable = reachable\<lparr>goto := Rejects ''Navigation timeout of 30000 ms exceeded''\<rparr>"

subsection \<open>The validity rule in the words of the specification\<close>

text \<open>
  The specification's rule: an entry is valid iff \<open>ttl \<noteq> 0\<close> and its version is the
  current one and \<open>now - timestamp < ttl\<close>.
\<close>

definition spec_valid :: "'a CacheEntry \<Rightarrow> int \<Rightarrow> string \<Rightarrow> int \<Rightarrow> bool" where
  "spec_valid entry ttl' currentVersion now =
     (ttl' \<noteq> 0 \<and> version entry = currentVersion \<and> now - timestamp entry < ttl')"

text \<open>The entries a lookup of \<open>key\<close> can meet: the one in memory, the one in the key's file.\<close>

definition stored :: "string \<Rightarrow> CacheConfig \<Rightarrow> world \<Rightarrow> jsval CacheEntry \<Rightarrow> bool" where
  "stored key config w e =
     (memoryCache w key = Some e
      \<or> (storage config = File \<and> files w (getCacheFilePath key) = Some (Content (JsonText e))))"

subsection \<open>Example worlds\<close>

definition freshWorld :: world where
  "freshWorld =
     \<lparr>memoryCache = Map.empty, files = Map.empty, cacheDirExists = False, writable = True,
      clock = 1000, console = []\<rparr>"

definition readOnlyWorld :: world where
  "readOnlyWorld = freshWorld\<lparr>writable := False\<rparr>"

definition dayOnDisk :: CacheConfig where
  "dayOnDisk = \<lparr>ttl = 86400000, storage = File\<rparr>"

definition disabledOnDisk :: CacheConfig where
  "disabledOnDisk = \<lparr>ttl = 0, storage = File\<rparr>"

text \<open>
  A world whose memory holds an entry of an older version for \<open>Button\<close> and whose disk
  holds one of the current version, both written at time 400; and a world whose file for
  \<open>Button\<close> is not JSON.
\<close>

definition staleWorld :: world where
  "staleWorld = freshWorld
     \<lparr>memoryCache := [''Button'' \<mapsto> \<lparr>data = JStr ''old'', timestamp = 400, version = ''7.15.0''\<rparr>],
      files := [getCacheFilePath ''Button'' \<mapsto>
                 Content (JsonText \<lparr>data = JStr ''doc'', timestamp = 400, version = ''7.16.2''\<rparr>)]\<rparr>"

definition garbledWorld :: world where
  "garbledWorld = freshWorld\<lparr>files := [getCacheFilePath ''Button'' \<mapsto> Content Garbled]\<rparr>"

section \<open>Properties of the cache\<close>

lemma isValidCacheEntry_spec_valid:
  "isValidCacheEntry e t v w = spec_valid e t v (clock w)"
  by (simp add: isValidCacheEntry_def spec_valid_def)

lemma readFileTier_cases:
  "readFileTier key config cv w =
     (case files w (getCacheFilePath key) of
        None \<Rightarrow> (Inr None, w)
      | Some Unreadable \<Rightarrow> (Inl (FsError (getCacheFilePath key)), w)
      | Some (Content Garbled) \<Rightarrow> (Inl SyntaxError, w)
      | Some (Content (JsonText e)) \<Rightarrow>
          if isValidCacheEntry e (ttl config) cv w
          then (Inr (Some (data e)), w\<lparr>memoryCache := (memoryCache w)(key \<mapsto> e)\<rparr>)
          else (Inr None, w))"
  by (simp add: readFileTier_def fs_existsSync_def fs_readFileSync_def JSON_parse_def
      split: option.splits disk_file.splits file_text.splits)

lemma getCache_hit_iff:
  "fst (getCache key config cv w) = Inr (Some d) \<longleftrightarrow>
     (\<exists>e. memoryCache w key = Some e \<and> data e = d \<and> spec_valid e (ttl config) cv (clock w))
     \<or> ((\<forall>e. memoryCache w key = Some e \<longrightarrow> \<not> spec_valid e (ttl config) cv (clock w))
         \<and> storage config = File
         \<and> (\<exists>e. files w (getCacheFilePath key) = Some (Content (JsonText e)) \<and> data e = d
                \<and> spec_valid e (ttl config) cv (clock w)))"
  by (auto simp: getCache_def memoryHit_def readFileTier_cases isValidCacheEntry_spec_valid
      split: option.splits disk_file.splits file_text.splits)

lemma getCache_returns: "\<exists>r. fst (getCache key config cv w) = Inr r"
  by (auto simp: getCache_def split: option.splits prod.splits sum.splits)

lemma getCache_miss_iff:
  "fst (getCache key config cv w) = Inr None \<longleftrightarrow>
     (\<forall>d. fst (getCache key config cv w) \<noteq> Inr (Some d))"
  using getCache_returns[of key config cv w]
  by (metis option.exhaust option.distinct(1) sum.inject(2))

text \<open>
  Claim C1. \<open>isValidCacheEntry\<close> is the specification's rule, and \<open>getCache\<close> returns the
  data \<open>d\<close> exactly when the entry in memory carries \<open>d\<close> and is valid by that rule or,
  the memory tier having no valid entry and file storage being on, the entry in the key's
  file carries \<open>d\<close> and is valid. In particular a \<open>ttl\<close> of 0 is always a miss, a version
  mismatch of every stored entry is a miss whatever the time, and an elapsed time of
  \<open>ttl\<close> or more is a miss.
\<close>

theorem getCache_validity_rule:
  "(isValidCacheEntry e t v w \<longleftrightarrow> t \<noteq> 0 \<and> version e = v \<and> clock w - timestamp e < t)
   \<and> (fst (getCache key config cv w) = Inr (Some d) \<longleftrightarrow>
        (\<exists>e. memoryCache w key = Some e \<and> data e = d \<and> spec_valid e (ttl config) cv (clock w))
        \<or> ((\<forall>e. memoryCache w key = Some e \<longrightarrow> \<not> spec_valid e (ttl config) cv (clock w))
            \<and> storage config = File
            \<and> (\<exists>e. files w (getCacheFilePath key) = Some (Content (JsonText e)) \<and> data e = d
                   \<and> spec_valid e (ttl config) cv (clock w))))
   \<and> (ttl config = 0 \<longrightarrow> fst (getCache key config cv w) = Inr None)
   \<and> ((\<forall>e. stored key config w e \<longrightarrow> version e \<noteq> cv)
        \<longrightarrow> fst (getCache key config cv w) = Inr None)
   \<and> ((\<forall>e. stored key config w e \<longrightarrow> ttl config \<le> clock w - timestamp e)
        \<longrightarrow> fst (getCache key config cv w) = Inr None)"
proof (intro conjI impI)
  show "isValidCacheEntry e t v w \<longleftrightarrow> t \<noteq> 0 \<and> version e = v \<and> clock w - timestamp e < t"
    by (simp add: isValidCacheEntry_spec_valid spec_valid_def)
  show "fst (getCache key config cv w) = Inr (Some d) \<longleftrightarrow>
        (\<exists>e. memoryCache w key = Some e \<and> data e = d \<and> spec_valid e (ttl config) cv (clock w))
        \<or> ((\<forall>e. memoryCache w key = Some e \<longrightarrow> \<not> spec_valid e (ttl config) cv (clock w))
            \<and> storage config = File
            \<and> (\<exists>e. files w (getCacheFilePath key) = Some (Content (JsonText e)) \<and> data e = d
                   \<and> spec_valid e (ttl config) cv (clock w)))"
    by (rule getCache_hit_iff)
  show "fst (getCache key config cv w) = Inr None" if "ttl config = 0"
    unfolding getCache_miss_iff getCache_hit_iff using that by (simp add: spec_valid_def)
  show "fst (getCache key config cv w) = Inr None"
    if "\<forall>e. stored key config w e \<longrightarrow> version e \<noteq> cv"
    unfolding getCache_miss_iff getCache_hit_iff using that
    by (auto simp: spec_valid_def stored_def)
  show "fst (getCache key config cv w) = Inr None"
    if "\<forall>e. stored key config w e \<longrightarrow> ttl config \<le> clock w - timestamp e"
    unfolding getCache_miss_iff getCache_hit_iff using that
    by (fastforce simp: spec_valid_def stored_def)
qed

theorem getCache_validity_rule_witness:
  "fst (getCache ''Button'' dayOnDisk ''7.16.2'' staleWorld) = Inr (Some (JStr ''doc''))
   \<and> fst (getCache ''Button'' disabledOnDisk ''7.16.2'' staleWorld) = Inr None
   \<and> fst (getCache ''Button'' dayOnDisk ''8.0.0'' staleWorld) = Inr None
   \<and> fst (getCache ''Button'' \<lparr>ttl = 600, storage = File\<rparr> ''7.16.2'' staleWorld) = Inr None"
proof (intro conjI)
  let ?m = "\<lparr>data = JStr ''old'', timestamp = 400, version = ''7.15.0''\<rparr> :: jsval CacheEntry"
  let ?f = "\<lparr>data = JStr ''doc'', timestamp = 400, version = ''7.16.2''\<rparr> :: jsval CacheEntry"
  let ?short = "\<lparr>ttl = 600, storage = File\<rparr>"
  have m: "memoryCache staleWorld ''Button'' = Some ?m"
    by (simp add: staleWorld_def freshWorld_def)
  have f: "files staleWorld (getCacheFilePath ''Button'') = Some (Content (JsonText ?f))"
    by (simp add: staleWorld_def freshWorld_def)
  have c: "clock staleWorld = 1000"
    by (simp add: staleWorld_def freshWorld_def)
  have st: "stored ''Button'' cfg staleWorld e \<Longrightarrow> e = ?m \<or> e = ?f" for cfg e
    by (auto simp: stored_def m f)
  have hit: "(\<forall>e. memoryCache staleWorld ''Button'' = Some e
                \<longrightarrow> \<not> spec_valid e (ttl dayOnDisk) ''7.16.2'' (clock staleWorld))
     \<and> storage dayOnDisk = File
     \<and> (\<exists>e. files staleWorld (getCacheFilePath ''Button'') = Some (Content (JsonText e))
           \<and> data e = JStr ''doc''
           \<and> spec_valid e (ttl dayOnDisk) ''7.16.2'' (clock staleWorld))"
    by (simp add: m f c spec_valid_def dayOnDisk_def)
  show "fst (getCache ''Button'' dayOnDisk ''7.16.2'' staleWorld) = Inr (Some (JStr ''doc''))"
    using hit getCache_validity_rule[of ?m 0 "''''" staleWorld "''Button''" dayOnDisk "''7.16.2''"
        "JStr ''doc''"]
    by blast
  have off: "ttl disabledOnDisk = 0" by (simp add: disabledOnDisk_def)
  show "fst (getCache ''Button'' disabledOnDisk ''7.16.2'' staleWorld) = Inr None"
    using off getCache_validity_rule[of ?m 0 "''''" staleWorld "''Button''" disabledOnDisk
        "''7.16.2''" "JStr ''doc''"]
    by blast
  have other: "\<forall>e. stored ''Button'' dayOnDisk staleWorld e \<longrightarrow> version e \<noteq> ''8.0.0''"
    using st by fastforce
  show "fst (getCache ''Button'' dayOnDisk ''8.0.0'' staleWorld) = Inr None"
    using other getCache_validity_rule[of ?m 0 "''''" staleWorld "''Button''" dayOnDisk
        "''8.0.0''" "JStr ''doc''"]
    by blast
  have old: "\<forall>e. stored ''Button'' ?short staleWorld e \<longrightarrow> ttl ?short \<le> clock staleWorld - timestamp e"
    using st[of ?short] by (fastforce simp: c)
  show "fst (getCache ''Button'' ?short ''7.16.2'' staleWorld) = Inr None"
    using old getCache_validity_rule[of ?m 0 "''''" staleWorld "''Button''" ?short
        "''7.16.2''" "JStr ''doc''"]
    by blast
qed

text \<open>
  Claim C2. With a positive \<open>ttl\<close>, a \<open>setCache\<close> followed by a \<open>getCache\<close> of the same key
  and version, after an elapsed time \<open>d\<close> below \<open>ttl\<close> (\<open>d = 0\<close> is "immediately"),
  returns the value that was set. The world read is the one \<open>setCache\<close> leaves, however
  its file write went.
\<close>

theorem setCache_then_getCache:
  "0 < ttl config \<Longrightarrow> d < ttl config \<Longrightarrow>
   fst (getCache key config ver (advanceClock d (snd (setCache key val config ver w))))
     = Inr (Some val)"
  by (auto simp: getCache_def memoryHit_def setCache_def advanceClock_def isValidCacheEntry_def
      ensureCacheDir_def fs_mkdirSync_def fs_writeFileSync_def Let_def
      split: prod.splits sum.splits if_splits)

theorem setCache_then_getCache_witness:
  "fst (getCache ''Button'' dayOnDisk ''7.16.2''
          (advanceClock 0 (snd (setCache ''Button'' (JStr ''doc'') dayOnDisk ''7.16.2'' freshWorld))))
     = Inr (Some (JStr ''doc''))"
proof -
  have pos: "0 < ttl dayOnDisk" by (simp add: dayOnDisk_def)
  show ?thesis using setCache_then_getCache[OF pos pos] .
qed

text \<open>
  Claim C3, at a failing input: on a disk that refuses writes, \<open>setCache\<close> with file
  storage ends with the exception of the file system (it reaches the caller), nothing is
  written to the console, and the entry is in memory.
\<close>

theorem setCache_write_failure_surfaces:
  "fst (setCache ''Button'' (JStr ''doc'') dayOnDisk ''7.16.2'' readOnlyWorld)
     = Inl (FsError CACHE_DIR)
   \<and> console (snd (setCache ''Button'' (JStr ''doc'') dayOnDisk ''7.16.2'' readOnlyWorld)) = []
   \<and> memoryCache (snd (setCache ''Button'' (JStr ''doc'') dayOnDisk ''7.16.2'' readOnlyWorld))
        ''Button''
       = Some \<lparr>data = JStr ''doc'', timestamp = 1000, version = ''7.16.2''\<rparr>"
  by (simp add: setCache_def readOnlyWorld_def freshWorld_def dayOnDisk_def ensureCacheDir_def
      fs_mkdirSync_def Let_def)

subsection \<open>The file name of a key\<close>

lemma sanitize_char_eq:
  "((if alnum a then a else CHR ''_'') = (if alnum b then b else CHR ''_'')) \<longleftrightarrow>
     (a = b \<or> (\<not> alnum a \<and> \<not> alnum b))"
  by (auto simp: alnum_def)

lemma sanitize_eq_iff:
  "sanitize k1 = sanitize k2 \<longleftrightarrow>
     list_all2 (\<lambda>a b. a = b \<or> (\<not> alnum a \<and> \<not> alnum b)) k1 k2"
  unfolding sanitize_def
proof (induction k1 arbitrary: k2)
  case Nil
  then show ?case by auto
next
  case (Cons a k1)
  then show ?case by (cases k2) (auto simp: sanitize_char_eq)
qed

lemma getCacheFilePath_eq_sanitize:
  "getCacheFilePath k1 = getCacheFilePath k2 \<longleftrightarrow> sanitize k1 = sanitize k2"
  by (simp add: getCacheFilePath_def)

text \<open>
  Claim C4, as stated, fails: the keys \<open>a-b\<close> and \<open>a_b\<close> are distinct and share a file.
\<close>

theorem getCacheFilePath_collision:
  "''a-b'' \<noteq> ''a_b'' \<and> getCacheFilePath ''a-b'' = getCacheFilePath ''a_b''"
  by (simp add: getCacheFilePath_def sanitize_def alnum_def)

text \<open>
  Claim C4, amended. One key has one file; two keys share a file exactly when they have
  the same length and, position by position, carry the same character or two characters
  outside \<open>[A-Za-z0-9]\<close>. So keys made of letters and digits only never collide.
\<close>

theorem getCacheFilePath_eq_iff:
  "(getCacheFilePath k1 = getCacheFilePath k2 \<longleftrightarrow>
      list_all2 (\<lambda>a b. a = b \<or> (\<not> alnum a \<and> \<not> alnum b)) k1 k2)
   \<and> (list_all alnum k1 \<and> list_all alnum k2 \<longrightarrow>
        (getCacheFilePath k1 = getCacheFilePath k2 \<longleftrightarrow> k1 = k2))"
proof (intro conjI impI)
  show a: "getCacheFilePath k1 = getCacheFilePath k2 \<longleftrightarrow>
      list_all2 (\<lambda>a b. a = b \<or> (\<not> alnum a \<and> \<not> alnum b)) k1 k2"
    by (simp add: getCacheFilePath_eq_sanitize sanitize_eq_iff)
  assume h: "list_all alnum k1 \<and> list_all alnum k2"
  have "list_all2 (\<lambda>a b. a = b \<or> (\<not> alnum a \<and> \<not> alnum b)) k1 k2 \<longleftrightarrow> k1 = k2"
    using h by (auto simp: list_all2_conv_all_nth list_all_length list_eq_iff_nth_eq)
  with a show "getCacheFilePath k1 = getCacheFilePath k2 \<longleftrightarrow> k1 = k2" by simp
qed

theorem getCacheFilePath_eq_iff_witness:
  "list_all alnum ''Button7'' \<and> list_all alnum ''Button8''
   \<and> getCacheFilePath ''Button7'' \<noteq> getCacheFilePath ''Button8''
   \<and> getCacheFilePath ''date-picker'' = getCacheFilePath ''date_picker''"
proof -
  have a: "list_all alnum ''Button7'' \<and> list_all alnum ''Button8''"
    by (simp add: alnum_def)
  have b: "list_all2 (\<lambda>a b. a = b \<or> (\<not> alnum a \<and> \<not> alnum b)) ''date-picker'' ''date_picker''"
    by (simp add: alnum_def)
  have "getCacheFilePath ''Button7'' \<noteq> getCacheFilePath ''Button8''"
    using a getCacheFilePath_eq_iff[of "''Button7''" "''Button8''"] by simp
  moreover have "getCacheFilePath ''date-picker'' = getCacheFilePath ''date_picker''"
    using b getCacheFilePath_eq_iff[of "''date-picker''" "''date_picker''"] by blast
  ultimately show ?thesis using a by blast
qed

subsection \<open>The two tiers\<close>













text \<open>
  Claim C6. \<open>getCache\<close> always returns (no exception leaves it). When memory has no valid
  entry, a missing file gives a miss and leaves the world as it was; a file that cannot
  be read or is not JSON gives a miss too, and the only change is one more line on the
  console, naming the key and carrying the error.
\<close>

theorem getCache_never_throws:
  "(\<exists>r. fst (getCache key config cv w) = Inr r)
   \<and> ((\<forall>e. memoryCache w key = Some e \<longrightarrow> \<not> isValidCacheEntry e (ttl config) cv w)
        \<and> files w (getCacheFilePath key) = None
        \<longrightarrow> getCache key config cv w = (Inr None, w))
   \<and> ((\<forall>e. memoryCache w key = Some e \<longrightarrow> \<not> isValidCacheEntry e (ttl config) cv w)
        \<and> storage config = File
        \<and> (files w (getCacheFilePath key) = Some Unreadable
            \<or> files w (getCacheFilePath key) = Some (Content Garbled))
        \<longrightarrow> fst (getCache key config cv w) = Inr None
            \<and> (\<exists>err. snd (getCache key config cv w)
                   = w\<lparr>console := console w
                         @ [(''Error reading cache file for key '' @ key @ '':'', err)]\<rparr>))"
  by (auto simp: getCache_def memoryHit_def readFileTier_cases
      split: option.splits prod.splits sum.splits)

theorem getCache_never_throws_witness:
  "getCache ''Button'' dayOnDisk ''7.16.2'' freshWorld = (Inr None, freshWorld)
   \<and> fst (getCache ''Button'' dayOnDisk ''7.16.2'' garbledWorld) = Inr None
   \<and> (\<exists>err. snd (getCache ''Button'' dayOnDisk ''7.16.2'' garbledWorld)
         = garbledWorld\<lparr>console := [(''Error reading cache file for key Button:'', err)]\<rparr>)"
proof -
  have m0: "\<forall>e. memoryCache freshWorld ''Button'' = Some e
              \<longrightarrow> \<not> isValidCacheEntry e (ttl dayOnDisk) ''7.16.2'' freshWorld"
    by (simp add: freshWorld_def)
  have f0: "files freshWorld (getCacheFilePath ''Button'') = None"
    by (simp add: freshWorld_def)
  have m1: "\<forall>e. memoryCache garbledWorld ''Button'' = Some e
              \<longrightarrow> \<not> isValidCacheEntry e (ttl dayOnDisk) ''7.16.2'' garbledWorld"
    by (simp add: garbledWorld_def freshWorld_def)
  have f1: "files garbledWorld (getCacheFilePath ''Button'') = Some (Content Garbled)"
    by (simp add: garbledWorld_def freshWorld_def)
  have s: "storage dayOnDisk = File" by (simp add: dayOnDisk_def)
  have c: "console garbledWorld = []" by (simp add: garbledWorld_def freshWorld_def)
  have "getCache ''Button'' dayOnDisk ''7.16.2'' freshWorld = (Inr None, freshWorld)"
    using m0 f0 getCache_never_throws[of "''Button''" dayOnDisk "''7.16.2''" freshWorld] by blast
  moreover have "fst (getCache ''Button'' dayOnDisk ''7.16.2'' garbledWorld) = Inr None
     \<and> (\<exists>err. snd (getCache ''Button'' dayOnDisk ''7.16.2'' garbledWorld)
         = garbledWorld\<lparr>console := console garbledWorld
              @ [(''Error reading cache file for key '' @ ''Button'' @ '':'', err)]\<rparr>)"
    using m1 f1 s getCache_never_throws[of "''Button''" dayOnDisk "''7.16.2''" garbledWorld] by blast
  ultimately show ?thesis by (simp add: c)
qed

text \<open>
  Claim C10. Whatever the \<open>ttl\<close>, \<open>setCache\<close> puts the entry (data, time of the call,
  version) in the in-process map; with file storage on a disk that accepts writes it
  returns and the key's file holds the serialized entry; and the whole outcome is the same
  for every \<open>ttl\<close>.
\<close>

theorem setCache_ignores_ttl:
  "memoryCache (snd (setCache key val config ver w)) key
     = Some \<lparr>data = val, timestamp = clock w, version = ver\<rparr>
   \<and> (storage config = File \<and> writable w \<longrightarrow>
        fst (setCache key val config ver w) = Inr ()
        \<and> files (snd (setCache key val config ver w)) (getCacheFilePath key)
            = Some (Content (JSON_stringify \<lparr>data = val, timestamp = clock w, version = ver\<rparr>)))
   \<and> setCache key val (config\<lparr>ttl := t\<rparr>) ver w = setCache key val config ver w"
  by (auto simp: setCache_def ensureCacheDir_def fs_mkdirSync_def fs_writeFileSync_def Let_def
      split: prod.splits sum.splits if_splits)

theorem setCache_ignores_ttl_witness:
  "memoryCache (snd (setCache ''Button'' (JStr ''doc'') disabledOnDisk ''7.16.2'' freshWorld)) ''Button''
     = Some \<lparr>data = JStr ''doc'', timestamp = 1000, version = ''7.16.2''\<rparr>
   \<and> files (snd (setCache ''Button'' (JStr ''doc'') disabledOnDisk ''7.16.2'' freshWorld))
        (getCacheFilePath ''Button'')
     = Some (Content (JsonText \<lparr>data = JStr ''doc'', timestamp = 1000, version = ''7.16.2''\<rparr>))
   \<and> fst (getCache ''Button'' disabledOnDisk ''7.16.2''
         (snd (setCache ''Button'' (JStr ''doc'') disabledOnDisk ''7.16.2'' freshWorld))) = Inr None"
proof -
  have s: "storage disabledOnDisk = File \<and> writable freshWorld"
    by (simp add: disabledOnDisk_def freshWorld_def)
  have c: "clock freshWorld = 1000" by (simp add: freshWorld_def)
  have j: "JSON_stringify \<lparr>data = JStr ''doc'', timestamp = 1000, version = ''7.16.2''\<rparr>
           = JsonText \<lparr>data = JStr ''doc'', timestamp = 1000, version = ''7.16.2''\<rparr>"
    by (simp add: JSON_stringify_def)
  have z: "fst (getCache ''Button'' disabledOnDisk ''7.16.2'' w) = Inr None" for w
    by (simp add: getCache_def memoryHit_def readFileTier_cases isValidCacheEntry_def
        disabledOnDisk_def split: option.splits disk_file.splits file_text.splits)
  show ?thesis
    using s setCache_ignores_ttl[of "''Button''" "JStr ''doc''" disabledOnDisk "''7.16.2''" freshWorld 0]
    by (simp add: c j z)
qed

section \<open>Properties of the extraction\<close>

subsection \<open>The properties table\<close>







text \<open>A default column that holds only a no-break space is an absent default.\<close>

lemma extractProps_no_break_space:
  "extractProps [[''p'', ''T'', [CHR 0xA0], ''d'']]
     = [\<lparr>prop_name = ''p'', prop_type = ''T'', prop_defaultValue = None,
         prop_description = ''d'', prop_required = False\<rparr>]"
  by (simp add: extractProps_def pushProp_def trim_def is_space_def includes_char_def)

subsection \<open>The related components\<close>

lemma foldl_set_add_distinct:
  "distinct acc \<Longrightarrow> distinct (foldl (\<lambda>s x. if x \<in> set s then s else s @ [x]) acc xs)"
  by (induction xs arbitrary: acc) auto

lemma array_from_set_distinct: "distinct (array_from_set xs)"
  by (simp add: array_from_set_def foldl_set_add_distinct)

text \<open>The half of claim C7 that holds: the list has no duplicates.\<close>

lemma relatedComponents_distinct:
  "fst (fetchComponentDocFromWebsite componentName st s) = Inr doc \<Longrightarrow>
   distinct (relatedComponents doc)"
  by (auto simp: fetchComponentDocFromWebsite_def tryFetch_def extractDoc_def extractRelated_def
      array_from_set_distinct Let_def split: promise.splits prod.splits sum.splits)

lemma char_of_eqI: "of_char c = (n::nat) \<Longrightarrow> char_of n = c"
  by (metis char_of_char)

lemma char_of_65: "char_of (65::nat) = CHR ''A''"
  by (rule char_of_eqI) simp

lemma char_of_66: "char_of (66::nat) = CHR ''B''"
  by (rule char_of_eqI) simp

lemma char_of_98: "char_of (98::nat) = CHR ''b''"
  by (rule char_of_eqI) simp

lemma capitalize_button: "capitalize ''button'' = ''Button''"
  by (simp add: capitalize_def toUpperCase_def char_of_66)

lemma toLowerCase_Button: "toLowerCase ''Button'' = ''button''"
  by (simp add: toLowerCase_def toLowerCase_char_def char_of_98)

lemma extractRelated_buttonPage:
  "extractRelated ''Button'' (anchors buttonPage) = [''Action-icon'', ''Button'']"
  by (simp add: extractRelated_def buttonPage_def pushRelated_def array_from_set_def
      startsWith_def endsWith_def split_pop_def capitalize_def toUpperCase_def char_of_65
      toLowerCase_Button Let_def)

lemma extractProps_buttonPage:
  "extractProps (tableRows buttonPage) =
     [\<lparr>prop_name = ''onClick'', prop_type = ''() => void'', prop_defaultValue = None,
        prop_description = ''Click handler'', prop_required = False\<rparr>,
      \<lparr>prop_name = ''size *'', prop_type = ''string'', prop_defaultValue = Some ''md'',
        prop_description = ''Size'', prop_required = True\<rparr>]"
  by (simp add: extractProps_def buttonPage_def pushProp_def trim_def is_space_def
      includes_char_def)

lemma description_buttonPage: "trim (titleNextP buttonPage) = ''Button component''"
  by (simp add: buttonPage_def trim_def is_space_def)

text \<open>
  Claim C7, at a failing input: on a page for \<open>button\<close> with an anchor to \<open>/core/Button\<close>
  (and one to \<open>/core/button\<close>, two to \<open>/core/action-icon\<close>), the document is named
  \<open>Button\<close> and its related components are \<open>Action-icon\<close> and \<open>Button\<close>: the test that
  leaves the own page out compares the \<open>href\<close> with the lower-cased name only.
\<close>

theorem relatedComponents_contains_own_name:
  "fst (fetchComponentDocFromWebsite ''button'' reachable idle)
     = Inr \<lparr>name = ''Button'',
            description = ''Button component'',
            props = [\<lparr>prop_name = ''onClick'', prop_type = ''() => void'',
                       prop_defaultValue = None, prop_description = ''Click handler'',
                       prop_required = False\<rparr>,
                     \<lparr>prop_name = ''size *'', prop_type = ''string'',
                       prop_defaultValue = Some ''md'', prop_description = ''Size'',
                       prop_required = True\<rparr>],
            url = ''https://mantine.dev/core/button'',
            relatedComponents = [''Action-icon'', ''Button'']\<rparr>"
  by (simp add: fetchComponentDocFromWebsite_def tryFetch_def reachable_def idle_def swallow_def
      extractDoc_def capitalize_button toLowerCase_Button extractRelated_buttonPage
      extractProps_buttonPage description_buttonPage MANTINE_DOCS_BASE_URL_def Let_def)

subsection \<open>The rendering session\<close>

text \<open>When every step but the wait for the selector succeeds, the browser is closed.\<close>

lemma fetch_success_closes_browser:
  "openBrowsers (snd (fetchComponentDocFromWebsite ''button'' reachable idle)) = 0"
  by (simp add: fetchComponentDocFromWebsite_def tryFetch_def reachable_def idle_def swallow_def
      Let_def)

text \<open>Every failure after the launch leaves the launched browser open.\<close>

lemma fetch_failure_keeps_browser:
  "launch st = Resolves () \<Longrightarrow> fst (fetchComponentDocFromWebsite componentName st s) = Inl e \<Longrightarrow>
   openBrowsers (snd (fetchComponentDocFromWebsite componentName st s)) = Suc (openBrowsers s)"
  by (auto simp: fetchComponentDocFromWebsite_def tryFetch_def Let_def
      split: promise.splits prod.splits sum.splits)

text \<open>
  Claim C9, at a failing input: when \<^verbatim>\<open>page.goto\<close> rejects (a navigation timeout), the call
  ends with the error and one browser open.
\<close>

theorem fetch_failure_leaves_browser_open:
  "fetchComponentDocFromWebsite ''button'' unreachable idle
     = (Inl (Error ''Failed to fetch documentation for button: Navigation timeout of 30000 ms exceeded''),
        \<lparr>openBrowsers = 1, errors = [''Error fetching documentation for button:'']\<rparr>)"
  by (simp add: fetchComponentDocFromWebsite_def tryFetch_def unreachable_def reachable_def
      idle_def Let_def)

end
